theory Spec2Isabelle
  imports Complex_Main "HOL-Library.Sublist"
begin

section \<open>Data model (types.ts)\<close>

text \<open>
  The enum \<open>ImageFormat\<close> with its string values, and the two interfaces
  \<open>ImageState\<close> and \<open>ConversionResult\<close>. Field names are the source's, except
  that \<open>file\<close>, \<open>size\<close> and \<open>type\<close> carry a prefix (\<open>file\<close> is a keyword of
  Isabelle, \<open>size\<close> a constant of HOL, and two records cannot share a field name).
  JavaScript numbers that hold lengths, byte counts and pixel dimensions are integers;
  the size estimate can be negative, so it is an \<open>int\<close>. A \<open>string\<close> is the list of
  the code units of the JavaScript string.
\<close>

datatype ImageFormat = PNG | JPEG | WEBP

fun format_str :: "ImageFormat \<Rightarrow> string" where
  "format_str PNG = ''png''"
| "format_str JPEG = ''jpeg''"
| "format_str WEBP = ''webp''"

text \<open>The fields of the browser's \<open>File\<close> object that the program reads.\<close>

record File =
  file_name :: string
  file_size :: nat
  file_type :: string

record ImageState =
  src_file :: File
  previewUrl :: string
  name :: string
  src_size :: nat
  src_type :: string
  width :: nat
  height :: nat

record ConversionResult =
  url :: string
  format :: ImageFormat
  res_size :: int

section \<open>The platform\<close>

text \<open>
  A decoded \<open>Image\<close> element and a canvas. What the browser does in
  \<open>getContext\<close>, \<open>drawImage\<close> and \<open>toDataURL\<close> is not code of the program: it is a
  parameter of the model. \<open>None\<close> stands for a call that throws.
\<close>

record Image =
  image_width :: nat
  image_height :: nat
  image_pixels :: "nat list"

record Canvas =
  canvas_width :: nat
  canvas_height :: nat
  canvas_pixels :: "nat list"

record platform =
  get_context :: "Canvas \<Rightarrow> bool"
  draw_image :: "Canvas \<Rightarrow> Image \<Rightarrow> Canvas option"
  to_data_url :: "Canvas \<Rightarrow> string \<Rightarrow> rat \<Rightarrow> string option"

text \<open>
  \<open>Math.round\<close>: the nearest integer, a tie going up. Its argument in line 93 is an
  integer divided by four, which a double holds exactly, so rationals model it.
\<close>

definition Math_round :: "rat \<Rightarrow> int" where
  "Math_round x = \<lfloor>x + 1 / 2\<rfloor>"

section \<open>Component state\<close>

text \<open>
  The six \<open>useState\<close> slots of \<open>App\<close> and the value of the file input behind
  \<open>fileInputRef\<close> (\<open>None\<close> while the input is not mounted, so that
  \<open>fileInputRef.current\<close> is null).
\<close>

record App =
  sourceImage :: "ImageState option"
  targetFormat :: ImageFormat
  quality :: rat
  isConverting :: bool
  result :: "ConversionResult option"
  isDragging :: bool
  fileInputRef :: "string option"

definition init_App :: App where
  "init_App = \<lparr>sourceImage = None, targetFormat = PNG, quality = 9 / 10,
     isConverting = False, result = None, isDragging = False, fileInputRef = Some ''''\<rparr>"

text \<open>
  What the user and the console see: the two \<open>alert\<close> texts (lines 17 and 102) and
  \<open>console.error\<close>.
\<close>

datatype error = CanvasContextError | DrawImageError | ToDataURLError

datatype effect = AlertInvalidFile | AlertConversionFailed | ConsoleError error

text \<open>
  An invocation of \<open>convertImage\<close> suspended at its \<open>await\<close> (line 78). The closure
  holds the \<open>sourceImage\<close>, \<open>targetFormat\<close> and \<open>quality\<close> of the render in which
  the handler was created. The promise resolves on the image's \<open>load\<close> event only:
  after an \<open>error\<close> event it stays pending (\<open>task_failed\<close>).
\<close>

record conv_task =
  task_source :: ImageState
  task_format :: ImageFormat
  task_quality :: rat
  task_failed :: bool

text \<open>
  The component with its pending asynchronous work: \<open>FileReader\<close>s that have not
  fired yet, \<open>Image\<close> elements of \<open>handleFile\<close> that have not fired yet, suspended
  conversions, and the effects so far.
\<close>

record world =
  app :: App
  readers :: "File list"
  images :: "(File \<times> string) list"
  conversions :: "conv_task list"
  effects :: "effect list"

definition init_world :: world where
  "init_world = \<lparr>app = init_App, readers = [], images = [], conversions = [], effects = []\<rparr>"

section \<open>convertImage (lines 71-106)\<close>

text \<open>Lines 72-78: up to the \<open>await\<close>.\<close>

definition convertImage :: "world \<Rightarrow> world" where
  "convertImage w =
     (case sourceImage (app w) of
        None \<Rightarrow> w
      | Some src \<Rightarrow>
          w\<lparr>app := (app w)\<lparr>isConverting := True\<rparr>,
            conversions := conversions w @
              [\<lparr>task_source = src, task_format = targetFormat (app w),
                task_quality = quality (app w), task_failed = False\<rparr>]\<rparr>)"

text \<open>Lines 80-99: the rest of the \<open>try\<close> block, once the image has loaded.\<close>

definition data_url_head :: "string \<Rightarrow> string" where
  "data_url_head mimeType = ''data:'' @ mimeType @ '';base64,''"

definition convert_body :: "platform \<Rightarrow> conv_task \<Rightarrow> Image \<Rightarrow> error + ConversionResult" where
  "convert_body P t img =
     (let canvas = \<lparr>canvas_width = image_width img, canvas_height = image_height img,
                    canvas_pixels = []\<rparr>
      in (if \<not> get_context P canvas then Inl CanvasContextError
          else (case draw_image P canvas img of
                  None \<Rightarrow> Inl DrawImageError
                | Some painted \<Rightarrow>
                    (let mimeType = ''image/'' @ format_str (task_format t)
                     in (case to_data_url P painted mimeType (task_quality t) of
                           None \<Rightarrow> Inl ToDataURLError
                         | Some dataUrl \<Rightarrow>
                             (let head = length (data_url_head mimeType);
                                  fileSize = Math_round
                                    (of_int ((int (length dataUrl) - int head) * 3) / 4)
                              in Inr \<lparr>url = dataUrl, format = task_format t,
                                      res_size = fileSize\<rparr>))))))"

text \<open>
  Lines 80-105 as the continuation of a suspended invocation \<open>t\<close>: the body, then
  \<open>catch\<close> and \<open>finally\<close>. The setters act on the state of the moment.
\<close>

definition convertImage_resume :: "platform \<Rightarrow> conv_task \<Rightarrow> Image \<Rightarrow> world \<Rightarrow> world" where
  "convertImage_resume P t img w =
     (case convert_body P t img of
        Inr r \<Rightarrow> w\<lparr>app := (app w)\<lparr>result := Some r, isConverting := False\<rparr>\<rparr>
      | Inl e \<Rightarrow> w\<lparr>app := (app w)\<lparr>isConverting := False\<rparr>,
                   effects := effects w @ [ConsoleError e, AlertConversionFailed]\<rparr>)"

section \<open>handleFile and the other handlers (lines 15-69)\<close>

text \<open>Lines 15-21 and 38: the type check, then \<open>readAsDataURL\<close> is started.\<close>

definition handleFile :: "File \<Rightarrow> world \<Rightarrow> world" where
  "handleFile f w =
     (if \<not> prefix ''image/'' (file_type f)
      then w\<lparr>effects := effects w @ [AlertInvalidFile]\<rparr>
      else w\<lparr>readers := readers w @ [f]\<rparr>)"

text \<open>Lines 22-23 and 36: \<open>reader.onload\<close> with the data URL \<open>d\<close> starts an image load.\<close>

definition reader_onload :: "File \<Rightarrow> string \<Rightarrow> world \<Rightarrow> world" where
  "reader_onload f d w = w\<lparr>images := images w @ [(f, d)]\<rparr>"

text \<open>Lines 24-35: \<open>img.onload\<close> of \<open>handleFile\<close>.\<close>

definition img_onload :: "File \<Rightarrow> string \<Rightarrow> Image \<Rightarrow> world \<Rightarrow> world" where
  "img_onload f d img w =
     w\<lparr>app := (app w)\<lparr>sourceImage :=
              Some \<lparr>src_file = f, previewUrl = d, name = file_name f,
                    src_size = file_size f, src_type = file_type f,
                    width = image_width img, height = image_height img\<rparr>,
            result := None\<rparr>\<rparr>"

text \<open>Lines 41-62; the argument is the event's file list.\<close>

definition onFileChange :: "File list \<Rightarrow> world \<Rightarrow> world" where
  "onFileChange fs w = (case fs of [] \<Rightarrow> w | f # _ \<Rightarrow> handleFile f w)"

definition onDrop :: "File list \<Rightarrow> world \<Rightarrow> world" where
  "onDrop fs w =
     (let w1 = w\<lparr>app := (app w)\<lparr>isDragging := False\<rparr>\<rparr>
      in (case fs of [] \<Rightarrow> w1 | f # _ \<Rightarrow> handleFile f w1))"

definition onDragOver :: "world \<Rightarrow> world" where
  "onDragOver w = w\<lparr>app := (app w)\<lparr>isDragging := True\<rparr>\<rparr>"

definition onDragLeave :: "world \<Rightarrow> world" where
  "onDragLeave w = w\<lparr>app := (app w)\<lparr>isDragging := False\<rparr>\<rparr>"

text \<open>Lines 64-69.\<close>

definition reset :: "world \<Rightarrow> world" where
  "reset w =
     w\<lparr>app := (app w)\<lparr>sourceImage := None, result := None, isConverting := False,
              fileInputRef := (case fileInputRef (app w) of
                                 None \<Rightarrow> None
                               | Some v \<Rightarrow> Some [])\<rparr>\<rparr>"

section \<open>The view (lines 116-347)\<close>

text \<open>
  Which controls the render shows. The upload zone with the file input is the branch
  \<open>!sourceImage\<close> (line 130); the settings, the convert and reset buttons and the
  preview are the other branch.
\<close>

definition upload_zone_shown :: "App \<Rightarrow> bool" where
  "upload_zone_shown a = (sourceImage a = None)"

definition settings_shown :: "App \<Rightarrow> bool" where
  "settings_shown a = (sourceImage a \<noteq> None)"

text \<open>Line 184, inside the settings.\<close>

definition quality_control_shown :: "App \<Rightarrow> bool" where
  "quality_control_shown a =
     (settings_shown a \<and> (targetFormat a = JPEG \<or> targetFormat a = WEBP))"

text \<open>Line 210.\<close>

definition convert_disabled :: "App \<Rightarrow> bool" where
  "convert_disabled a = isConverting a"

text \<open>
  \<open>String.prototype.split\<close> with a one-character separator: the pieces between the
  separators, never an empty array.
\<close>

fun split_on :: "char \<Rightarrow> string \<Rightarrow> string list" where
  "split_on c [] = [[]]"
| "split_on c (x # xs) =
     (if x = c then [] # split_on c xs
      else (case split_on c xs of
              [] \<Rightarrow> [[x]]
            | p # ps \<Rightarrow> (x # p) # ps))"

text \<open>Line 319: the \<open>download\<close> attribute of the link.\<close>

definition download_name :: "ImageState \<Rightarrow> ConversionResult \<Rightarrow> string" where
  "download_name src r =
     ''converted-'' @ (split_on (CHR ''.'') (name src) ! 0) @ ''.'' @ format_str (format r)"

text \<open>Lines 306-326: the link is there when both a source and a result are.\<close>

definition download_link :: "App \<Rightarrow> (string \<times> string) option" where
  "download_link a =
     (case sourceImage a of
        None \<Rightarrow> None
      | Some src \<Rightarrow>
          (case result a of
             None \<Rightarrow> None
           | Some r \<Rightarrow> Some (url r, download_name src r)))"

section \<open>Events\<close>

text \<open>
  What can happen to the component: the user acts on a control that the current render
  shows and enables, or a pending \<open>FileReader\<close> or \<open>Image\<close> fires \<open>load\<close> or
  \<open>error\<close>. After a handler has run, React renders again: the file input is mounted
  (empty) when the upload zone appears and unmounted when it goes (\<open>commit\<close>).
\<close>

datatype event =
    SelectFiles "File list"
  | Drop "File list"
  | DragOver
  | DragLeave
  | ReaderLoad nat string
  | ReaderError nat
  | ImageLoad nat Image
  | ImageError nat
  | ClickFormat ImageFormat
  | SlideQuality rat
  | ClickConvert
  | ClickReset
  | ConvImageLoad nat Image
  | ConvImageError nat

definition delete_nth :: "nat \<Rightarrow> 'a list \<Rightarrow> 'a list" where
  "delete_nth i xs = take i xs @ drop (Suc i) xs"

definition commit :: "App \<Rightarrow> App" where
  "commit a =
     a\<lparr>fileInputRef :=
         (if upload_zone_shown a
          then (case fileInputRef a of None \<Rightarrow> Some [] | Some v \<Rightarrow> Some v)
          else None)\<rparr>"

text \<open>The value the browser gives a file input when the user picks files.\<close>

definition input_value :: "File list \<Rightarrow> string" where
  "input_value fs =
     (case fs of
        [] \<Rightarrow> []
      | f # _ \<Rightarrow> ''C:'' @ [CHR 0x5C] @ ''fakepath'' @ [CHR 0x5C] @ file_name f)"

fun dispatch :: "platform \<Rightarrow> event \<Rightarrow> world \<Rightarrow> world" where
  "dispatch P (SelectFiles fs) w =
     (if upload_zone_shown (app w)
      then onFileChange fs (w\<lparr>app := (app w)\<lparr>fileInputRef := Some (input_value fs)\<rparr>\<rparr>)
      else w)"
| "dispatch P (Drop fs) w = (if upload_zone_shown (app w) then onDrop fs w else w)"
| "dispatch P DragOver w = (if upload_zone_shown (app w) then onDragOver w else w)"
| "dispatch P DragLeave w = (if upload_zone_shown (app w) then onDragLeave w else w)"
| "dispatch P (ReaderLoad i d) w =
     (if i < length (readers w)
      then reader_onload (readers w ! i) d (w\<lparr>readers := delete_nth i (readers w)\<rparr>)
      else w)"
| "dispatch P (ReaderError i) w =
     (if i < length (readers w) then w\<lparr>readers := delete_nth i (readers w)\<rparr> else w)"
| "dispatch P (ImageLoad j img) w =
     (if j < length (images w)
      then img_onload (fst (images w ! j)) (snd (images w ! j)) img
             (w\<lparr>images := delete_nth j (images w)\<rparr>)
      else w)"
| "dispatch P (ImageError j) w =
     (if j < length (images w) then w\<lparr>images := delete_nth j (images w)\<rparr> else w)"
| "dispatch P (ClickFormat fmt) w =
     (if settings_shown (app w) then w\<lparr>app := (app w)\<lparr>targetFormat := fmt\<rparr>\<rparr> else w)"
| "dispatch P (SlideQuality q) w =
     (if quality_control_shown (app w) then w\<lparr>app := (app w)\<lparr>quality := q\<rparr>\<rparr> else w)"
| "dispatch P ClickConvert w =
     (if settings_shown (app w) \<and> \<not> convert_disabled (app w) then convertImage w else w)"
| "dispatch P ClickReset w = (if settings_shown (app w) then reset w else w)"
| "dispatch P (ConvImageLoad k img) w =
     (if k < length (conversions w) \<and> \<not> task_failed (conversions w ! k)
      then convertImage_resume P (conversions w ! k) img
             (w\<lparr>conversions := delete_nth k (conversions w)\<rparr>)
      else w)"
| "dispatch P (ConvImageError k) w =
     (if k < length (conversions w) \<and> \<not> task_failed (conversions w ! k)
      then w\<lparr>conversions := (conversions w)[k := (conversions w ! k)\<lparr>task_failed := True\<rparr>]\<rparr>
      else w)"

definition step :: "platform \<Rightarrow> event \<Rightarrow> world \<Rightarrow> world" where
  "step P e w = (let w' = dispatch P e w in w'\<lparr>app := commit (app w')\<rparr>)"

fun run :: "platform \<Rightarrow> event list \<Rightarrow> world \<Rightarrow> world" where
  "run P [] w = w"
| "run P (e # es) w = run P es (step P e w)"

section \<open>Runs\<close>

text \<open>No reset while a conversion is suspended, along a sequence of events.\<close>

fun no_reset_in_flight :: "platform \<Rightarrow> event list \<Rightarrow> world \<Rightarrow> bool" where
  "no_reset_in_flight P [] w = True"
| "no_reset_in_flight P (e # es) w =
     ((e = ClickReset \<longrightarrow> conversions w = []) \<and> no_reset_in_flight P es (step P e w))"

text \<open>At most one suspended conversion, and the in-flight flag set while there is one.\<close>

definition one_in_flight :: "world \<Rightarrow> bool" where
  "one_in_flight w =
     (length (conversions w) \<le> 1 \<and> (conversions w \<noteq> [] \<longrightarrow> isConverting (app w)))"

section \<open>A toy platform and example inputs\<close>

text \<open>
  A platform for evaluating the model on concrete inputs. Painting copies the image's
  pixels and throws for an image without pixels; the encoder writes four characters per
  pixel, for \<open>image/png\<close> whatever the quality, for the lossy types two per pixel
  when the quality is below one half.
\<close>

definition toy_platform :: platform where
  "toy_platform =
     \<lparr>get_context = (\<lambda>c. canvas_width c \<le> 4096 \<and> canvas_height c \<le> 4096),
      draw_image = (\<lambda>c img. if image_pixels img = [] then None
                              else Some (c\<lparr>canvas_pixels := image_pixels img\<rparr>)),
      to_data_url = (\<lambda>c mimeType q.
        if mimeType = ''image/png''
        then Some (''data:image/png;base64,'' @
                   replicate (4 * length (canvas_pixels c)) (CHR ''A''))
        else if 0 \<le> q \<and> q \<le> 1
        then Some (''data:'' @ mimeType @ '';base64,'' @
                   replicate ((if q < 1 / 2 then 2 else 4) * length (canvas_pixels c))
                     (CHR ''A''))
        else None)\<rparr>"

text \<open>
  A platform with a PNG encoder only: \<open>toDataURL\<close> answers every requested type with
  a PNG data URL, which is what a browser does for a type it cannot encode.
\<close>

definition png_only_platform :: platform where
  "png_only_platform =
     \<lparr>get_context = (\<lambda>c. True),
      draw_image = (\<lambda>c img. Some (c\<lparr>canvas_pixels := image_pixels img\<rparr>)),
      to_data_url = (\<lambda>c mimeType q.
        Some (''data:image/png;base64,'' @
              replicate (163 * length (canvas_pixels c)) (CHR ''A'')))\<rparr>"


definition photo_file :: File where
  "photo_file = \<lparr>file_name = ''holiday.2024.jpg'', file_size = 2000, file_type = ''image/jpeg''\<rparr>"

definition notes_file :: File where
  "notes_file = \<lparr>file_name = ''notes.txt'', file_size = 120, file_type = ''text/plain''\<rparr>"

definition photo_url :: string where
  "photo_url = ''data:image/jpeg;base64,/9j/4AAQSkZJRg==''"

definition photo_image :: Image where
  "photo_image = \<lparr>image_width = 3, image_height = 2, image_pixels = [1, 2, 3, 4, 5, 6]\<rparr>"

definition photo_source :: ImageState where
  "photo_source =
     \<lparr>src_file = photo_file, previewUrl = photo_url, name = ''holiday.2024.jpg'',
      src_size = 2000, src_type = ''image/jpeg'', width = 3, height = 2\<rparr>"

definition photo_task :: conv_task where
  "photo_task = \<lparr>task_source = photo_source, task_format = PNG, task_quality = 9 / 10,
                  task_failed = False\<rparr>"

text \<open>The user loads the photo: pick the file, the reader fires, the image fires.\<close>

definition load_photo :: "event list" where
  "load_photo = [SelectFiles [photo_file], ReaderLoad 0 photo_url, ImageLoad 0 photo_image]"

text \<open>The user loads the photo and picks JPEG.\<close>

definition jpeg_selected :: world where
  "jpeg_selected = run toy_platform (load_photo @ [ClickFormat JPEG]) init_world"

text \<open>
  The user loads the photo and converts it; before the image of the conversion has
  fired, the user resets and loads the photo again.
\<close>

definition reset_in_flight :: "event list" where
  "reset_in_flight = load_photo @ [ClickConvert, ClickReset] @ load_photo"

section \<open>Estimated size\<close>

lemma Math_round_quarters: "Math_round (of_int (n * 3) / 4) = (n * 3 + 2) div 4"
proof -
  have "(of_int (n * 3) / 4 + 1 / 2 :: rat) = of_int (n * 3 + 2) / of_int 4"
    by (simp add: field_simps)
  then have "\<lfloor>(of_int (n * 3) / 4 + 1 / 2 :: rat)\<rfloor> = \<lfloor>(of_int (n * 3 + 2) / of_int 4 :: rat)\<rfloor>"
    by (rule arg_cong)
  also have "\<dots> = (n * 3 + 2) div 4"
    by (rule floor_divide_of_int_eq)
  finally show ?thesis
    unfolding Math_round_def .
qed

text \<open>
  The header that line 92 measures is built from the requested type, not read off the
  data URL: 22 characters for \<open>png\<close>, 23 for \<open>jpeg\<close> and \<open>webp\<close>.
\<close>

lemma data_url_head_format:
  "data_url_head (''image/'' @ format_str fmt) = ''data:image/'' @ format_str fmt @ '';base64,''"
  by (simp add: data_url_head_def)

lemma length_data_url_head:
  "int (length (data_url_head (''image/'' @ format_str fmt))) =
     (case fmt of PNG \<Rightarrow> 22 | JPEG \<Rightarrow> 23 | WEBP \<Rightarrow> 23)"
  by (cases fmt) (simp_all add: data_url_head_def)

lemma Math_round_as_round:
  "Math_round (of_int ((int a - int b) * 3) / 4) = round ((of_nat a - of_nat b) * 3 / 4 :: rat)"
  by (simp add: Math_round_def round_def)

lemma of_nat_diff_payload:
  "a = b + c \<Longrightarrow> (of_nat a - of_nat b :: rat) = of_nat c"
  by simp

lemma convert_body_Inr:
  assumes "convert_body P t img = Inr r"
  shows "format r = task_format t"
    and "res_size r = Math_round (of_int ((int (length (url r)) -
            int (length (data_url_head (''image/'' @ format_str (task_format t))))) * 3) / 4)"
  using assms
  by (auto simp: convert_body_def Let_def split: if_splits option.splits)

text \<open>
  Claim C1, as the claim states it, fails: \<open>H\<close> is not the length of the data URL's own
  header. A platform that cannot encode WEBP answers with a PNG data URL; for one of
  1000 characters, whose header \<open>data:image/png;base64,\<close> has 22, the claim gives
  \<open>round (978 * 3 / 4) = 734\<close>, and the code, which subtracts the 23 characters of
  \<open>data:image/webp;base64,\<close>, records 733.
\<close>

theorem header_of_data_url_counterexample:
  "convert_body png_only_platform (photo_task\<lparr>task_format := WEBP\<rparr>) photo_image =
     Inr \<lparr>url = ''data:image/png;base64,'' @ replicate 978 (CHR ''A''), format = WEBP,
          res_size = 733\<rparr>
   \<and> length (''data:image/png;base64,'' @ replicate 978 (CHR ''A'')) = 1000
   \<and> length ''data:image/png;base64,'' = 22
   \<and> round ((1000 - 22) * 3 / 4 :: rat) = 734
   \<and> (733 :: int) \<noteq> round ((1000 - 22) * 3 / 4 :: rat)"
proof -
  have 1: "convert_body png_only_platform (photo_task\<lparr>task_format := WEBP\<rparr>) photo_image =
     Inr \<lparr>url = ''data:image/png;base64,'' @ replicate 978 (CHR ''A''), format = WEBP,
          res_size = 733\<rparr>"
    using Math_round_quarters [of 977]
    by (simp add: convert_body_def png_only_platform_def photo_task_def photo_image_def
          data_url_head_def Let_def)
  have 2: "length (''data:image/png;base64,'' @ replicate 978 (CHR ''A'')) = 1000"
    by simp
  have 3: "length ''data:image/png;base64,'' = 22"
    by simp
  have 4: "round ((1000 - 22) * 3 / 4 :: rat) = 734"
    by code_simp
  have 5: "(733 :: int) \<noteq> round ((1000 - 22) * 3 / 4 :: rat)"
    unfolding 4 by simp
  from 1 2 3 4 5 show ?thesis by blast
qed

text \<open>
  Claim C1, amended. For every conversion that succeeds, the size recorded in the
  \<open>ConversionResult\<close> is \<open>round ((L - H) * 3 / 4)\<close>, where \<open>L\<close> is the length of the
  encoded data URL and \<open>H\<close> the length of the header \<open>data:image/<format>;base64,\<close> of the
  requested target format: 22 for PNG, 23 for JPEG and WEBP. As an integer it is
  \<open>((L - H) * 3 + 2) div 4\<close>. When the data URL starts with that header, this is three
  quarters of the number of characters after it, rounded. For a PNG target and
  \<open>L = 1000\<close> the estimate is 734.
\<close>

theorem estimated_size_formula:
  assumes "convert_body P t img = Inr r"
  shows "result (app (convertImage_resume P t img w)) = Some r
         \<and> format r = task_format t
         \<and> res_size r =
             round ((of_nat (length (url r)) -
                     of_nat (length (''data:image/'' @ format_str (task_format t) @
                                     '';base64,''))) * 3 / 4 :: rat)
         \<and> res_size r =
             round ((of_nat (length (url r)) -
                     of_nat (case task_format t of PNG \<Rightarrow> 22 | JPEG \<Rightarrow> 23 | WEBP \<Rightarrow> 23))
                    * 3 / 4 :: rat)
         \<and> res_size r =
             ((int (length (url r)) -
               int (case task_format t of PNG \<Rightarrow> 22 | JPEG \<Rightarrow> 23 | WEBP \<Rightarrow> 23)) * 3 + 2) div 4
         \<and> (\<forall>payload. url r = ''data:image/'' @ format_str (task_format t) @ '';base64,'' @ payload
               \<longrightarrow> res_size r = round (of_nat (length payload) * 3 / 4 :: rat))
         \<and> (task_format t = PNG \<and> length (url r) = 1000 \<longrightarrow> res_size r = 734)"
proof -
  let ?head = "''data:image/'' @ format_str (task_format t) @ '';base64,''"
  let ?H = "case task_format t of PNG \<Rightarrow> 22 | JPEG \<Rightarrow> 23 | WEBP \<Rightarrow> (23 :: nat)"
  have hd: "data_url_head (''image/'' @ format_str (task_format t)) = ?head"
    by (rule data_url_head_format)
  have H: "length ?head = ?H"
    by (cases "task_format t") simp_all
  have s: "result (app (convertImage_resume P t img w)) = Some r"
    using assms by (simp add: convertImage_resume_def)
  have f: "format r = task_format t"
    using convert_body_Inr(1) [OF assms] .
  have size: "res_size r =
      Math_round (of_int ((int (length (url r)) - int (length ?head)) * 3) / 4)"
    using convert_body_Inr(2) [OF assms] unfolding hd .
  have r: "res_size r =
      round ((of_nat (length (url r)) - of_nat (length ?head)) * 3 / 4 :: rat)"
    unfolding size by (rule Math_round_as_round)
  have r': "res_size r = round ((of_nat (length (url r)) - of_nat ?H) * 3 / 4 :: rat)"
    using r unfolding H .
  have d: "res_size r = ((int (length (url r)) - int ?H) * 3 + 2) div 4"
    using size unfolding H by (simp only: Math_round_quarters)
  have p: "\<forall>payload. url r = ''data:image/'' @ format_str (task_format t) @ '';base64,'' @ payload
             \<longrightarrow> res_size r = round (of_nat (length payload) * 3 / 4 :: rat)"
  proof (intro allI impI)
    fix payload
    assume "url r = ''data:image/'' @ format_str (task_format t) @ '';base64,'' @ payload"
    then have u: "url r = ?head @ payload"
      by (simp only: append_assoc)
    have "length (url r) = length ?head + length payload"
      by (subst u) (simp only: length_append)
    then have "(of_nat (length (url r)) - of_nat (length ?head) :: rat) = of_nat (length payload)"
      by (rule of_nat_diff_payload)
    then show "res_size r = round (of_nat (length payload) * 3 / 4 :: rat)"
      by (simp only: r)
  qed
  have e: "res_size r = 734" if "task_format t = PNG" and "length (url r) = 1000"
    unfolding d that by simp
  from e have e': "task_format t = PNG \<and> length (url r) = 1000 \<longrightarrow> res_size r = 734"
    by (intro impI) (elim conjE)
  show ?thesis
    by (intro conjI s f r r' d p e')
qed

theorem estimated_size_formula_witness:
  "convert_body toy_platform (photo_task\<lparr>task_format := JPEG\<rparr>) photo_image =
     Inr \<lparr>url = ''data:image/jpeg;base64,AAAAAAAAAAAAAAAAAAAAAAAA'', format = JPEG, res_size = 18\<rparr>
   \<and> (18 :: int) = round ((of_nat 47 - of_nat 23) * 3 / 4 :: rat)"
proof -
  let ?r = "\<lparr>url = ''data:image/jpeg;base64,AAAAAAAAAAAAAAAAAAAAAAAA'', format = JPEG,
             res_size = 18\<rparr>"
  have b: "convert_body toy_platform (photo_task\<lparr>task_format := JPEG\<rparr>) photo_image = Inr ?r"
    by code_simp
  have "res_size ?r =
          round ((of_nat (length (url ?r)) -
                  of_nat (case task_format (photo_task\<lparr>task_format := JPEG\<rparr>) of
                            PNG \<Rightarrow> 22 | JPEG \<Rightarrow> 23 | WEBP \<Rightarrow> 23)) * 3 / 4 :: rat)"
    using estimated_size_formula [OF b, of init_world] by (elim conjE)
  then have "(18 :: int) = round ((of_nat 47 - of_nat 23) * 3 / 4 :: rat)"
    by (simp add: photo_task_def)
  with b show ?thesis by (rule conjI)
qed

section \<open>Loading a source\<close>

text \<open>
  The two callers: a rejected file that was picked changes nothing either; one that was
  dropped finds the drag flag cleared by \<open>onDrop\<close> before \<open>handleFile\<close> runs.
\<close>

lemma rejected_file_picked_or_dropped:
  assumes "\<not> prefix ''image/'' (file_type f)"
  shows "onFileChange (f # fs) w = w\<lparr>effects := effects w @ [AlertInvalidFile]\<rparr>"
    and "onDrop (f # fs) w =
           w\<lparr>app := (app w)\<lparr>isDragging := False\<rparr>, effects := effects w @ [AlertInvalidFile]\<rparr>"
  using assms by (simp_all add: onFileChange_def onDrop_def handleFile_def)

text \<open>
  Claim C3. A file whose declared type does not start with \<open>image/\<close> is rejected:
  \<open>handleFile\<close> reports the invalid-file notice and does nothing else. The component
  state is the same (no \<open>SourceImage\<close> is created, an existing one is unaltered, the
  \<open>ConversionResult\<close> and the in-flight flag are unchanged), and no reader is started.
\<close>

theorem handleFile_rejects_non_image:
  assumes "\<not> prefix ''image/'' (file_type f)"
  shows "handleFile f w = w\<lparr>effects := effects w @ [AlertInvalidFile]\<rparr>
         \<and> app (handleFile f w) = app w
         \<and> sourceImage (app (handleFile f w)) = sourceImage (app w)
         \<and> result (app (handleFile f w)) = result (app w)
         \<and> isConverting (app (handleFile f w)) = isConverting (app w)
         \<and> readers (handleFile f w) = readers w
         \<and> images (handleFile f w) = images w
         \<and> conversions (handleFile f w) = conversions w"
  using assms by (simp add: handleFile_def)

theorem handleFile_rejects_non_image_witness:
  "\<not> prefix ''image/'' (file_type notes_file)
   \<and> handleFile notes_file init_world = init_world\<lparr>effects := [AlertInvalidFile]\<rparr>
   \<and> sourceImage (app (handleFile notes_file init_world)) = None"
proof -
  have h: "\<not> prefix ''image/'' (file_type notes_file)"
    by (simp add: notes_file_def)
  show ?thesis
    using h handleFile_rejects_non_image [OF h, of init_world]
    by (simp add: init_world_def init_App_def)
qed

text \<open>
  Claim C8. Loading a valid file goes through three handlers. \<open>handleFile\<close> starts the
  reader and \<open>reader.onload\<close> starts the image load; neither touches the component
  state. Only \<open>img.onload\<close> updates it: the \<open>SourceImage\<close> is replaced by the one of
  the new file, with the decoded dimensions, and the \<open>ConversionResult\<close> is cleared,
  whatever it was; the other slots keep their values.
\<close>

theorem load_replaces_source_and_clears_result:
  assumes "prefix ''image/'' (file_type f)"
  shows "app (handleFile f w) = app w
         \<and> handleFile f w = w\<lparr>readers := readers w @ [f]\<rparr>
         \<and> app (dispatch P (ReaderLoad (length (readers w)) d) (handleFile f w)) = app w
         \<and> images (dispatch P (ReaderLoad (length (readers w)) d) (handleFile f w)) =
             images w @ [(f, d)]
         \<and> app (dispatch P (ImageLoad (length (images w)) img)
                  (dispatch P (ReaderLoad (length (readers w)) d) (handleFile f w))) =
             (app w)\<lparr>sourceImage :=
                 Some \<lparr>src_file = f, previewUrl = d, name = file_name f,
                       src_size = file_size f, src_type = file_type f,
                       width = image_width img, height = image_height img\<rparr>,
               result := None\<rparr>"
  using assms
  by (simp add: handleFile_def reader_onload_def img_onload_def delete_nth_def nth_append)

theorem load_replaces_source_and_clears_result_witness:
  "prefix ''image/'' (file_type photo_file)
   \<and> app (handleFile photo_file
            (init_world\<lparr>app := init_App\<lparr>result := Some \<lparr>url = ''data:,'', format = PNG,
                                                        res_size = - 12\<rparr>\<rparr>\<rparr>)) =
       init_App\<lparr>result := Some \<lparr>url = ''data:,'', format = PNG, res_size = - 12\<rparr>\<rparr>
   \<and> app (dispatch toy_platform (ImageLoad 0 photo_image)
            (dispatch toy_platform (ReaderLoad 0 photo_url)
               (handleFile photo_file
                  (init_world\<lparr>app := init_App\<lparr>result := Some \<lparr>url = ''data:,'', format = PNG,
                                                              res_size = - 12\<rparr>\<rparr>\<rparr>)))) =
       init_App\<lparr>sourceImage := Some photo_source, result := None\<rparr>"
proof -
  have h: "prefix ''image/'' (file_type photo_file)"
    by (simp add: photo_file_def)
  show ?thesis
    using h load_replaces_source_and_clears_result [OF h,
        of "init_world\<lparr>app := init_App\<lparr>result := Some \<lparr>url = ''data:,'', format = PNG,
                                                      res_size = - 12\<rparr>\<rparr>\<rparr>"
           toy_platform photo_url photo_image]
    by (simp add: init_world_def init_App_def photo_source_def photo_file_def photo_image_def
          handleFile_def reader_onload_def img_onload_def delete_nth_def)
qed

section \<open>Frame of convertImage\<close>

text \<open>
  Claim C9. \<open>convertImage\<close> never changes the \<open>SourceImage\<close>, neither when it is
  invoked nor when it resumes after the \<open>await\<close>. Invoking it changes at most the
  in-flight flag; resuming it changes at most the \<open>ConversionResult\<close> and the flag.
\<close>

theorem convert_never_mutates_source:
  "sourceImage (app (convertImage w)) = sourceImage (app w)
   \<and> sourceImage (app (convertImage_resume P t img w)) = sourceImage (app w)
   \<and> (\<exists>b. app (convertImage w) = (app w)\<lparr>isConverting := b\<rparr>)
   \<and> (\<exists>r b. app (convertImage_resume P t img w) = (app w)\<lparr>result := r, isConverting := b\<rparr>)"
proof -
  have 1: "sourceImage (app (convertImage w)) = sourceImage (app w)"
    by (simp add: convertImage_def split: option.splits)
  have 2: "sourceImage (app (convertImage_resume P t img w)) = sourceImage (app w)"
    by (simp add: convertImage_resume_def split: sum.splits)
  have 3: "\<exists>b. app (convertImage w) = (app w)\<lparr>isConverting := b\<rparr>"
  proof (cases "sourceImage (app w)")
    case None
    then have "app (convertImage w) = (app w)\<lparr>isConverting := isConverting (app w)\<rparr>"
      by (simp add: convertImage_def)
    then show ?thesis ..
  next
    case (Some src)
    then have "app (convertImage w) = (app w)\<lparr>isConverting := True\<rparr>"
      by (simp add: convertImage_def)
    then show ?thesis ..
  qed
  have 4: "\<exists>r b. app (convertImage_resume P t img w) = (app w)\<lparr>result := r, isConverting := b\<rparr>"
  proof (cases "convert_body P t img")
    case (Inl e)
    then have "app (convertImage_resume P t img w) =
        (app w)\<lparr>result := result (app w), isConverting := False\<rparr>"
      by (simp add: convertImage_resume_def)
    then show ?thesis by blast
  next
    case (Inr r)
    then have "app (convertImage_resume P t img w) =
        (app w)\<lparr>result := Some r, isConverting := False\<rparr>"
      by (simp add: convertImage_resume_def)
    then show ?thesis by blast
  qed
  from 1 2 3 4 show ?thesis by blast
qed

theorem convert_never_mutates_source_witness:
  "sourceImage (app (convertImage jpeg_selected)) = Some photo_source
   \<and> sourceImage (app (convertImage_resume toy_platform photo_task photo_image jpeg_selected)) =
       Some photo_source"
proof -
  have 1: "sourceImage (app jpeg_selected) = Some photo_source"
    by code_simp
  show ?thesis
    using 1 convert_never_mutates_source [of jpeg_selected toy_platform photo_task photo_image]
    by simp
qed

text \<open>
  Claim C10. With no \<open>SourceImage\<close>, \<open>convertImage\<close> returns at once: the component
  state, the pending work and the effects are all the same. The flag is not set, no
  \<open>ConversionResult\<close> is created or cleared, nothing is reported.
\<close>

theorem convert_without_source_is_noop:
  assumes "sourceImage (app w) = None"
  shows "convertImage w = w"
  using assms by (simp add: convertImage_def)

theorem convert_without_source_is_noop_witness:
  "sourceImage (app init_world) = None \<and> convertImage init_world = init_world"
proof -
  have h: "sourceImage (app init_world) = None"
    by (simp add: init_world_def init_App_def)
  show ?thesis
    using h convert_without_source_is_noop [OF h] by simp
qed

section \<open>The download name\<close>

lemma split_on_not_Nil: "split_on c s \<noteq> []"
  by (induction s) (auto split: list.splits)

lemma split_on_first: "split_on c s ! 0 = takeWhile (\<lambda>x. x \<noteq> c) s"
proof (induction s)
  case Nil
  show ?case by simp
next
  case (Cons x xs)
  show ?case
  proof (cases "split_on c xs")
    case Nil
    then show ?thesis using split_on_not_Nil [of c xs] by simp
  next
    case (Cons p ps)
    with Cons.IH show ?thesis by simp
  qed
qed

lemma download_name_eq:
  "download_name src r =
     ''converted-'' @ takeWhile (\<lambda>x. x \<noteq> CHR ''.'') (name src) @ ''.'' @ format_str (format r)"
  by (simp add: download_name_def split_on_first)

text \<open>
  Claim C2. The download name is \<open>converted-<base>.<format>\<close> with \<open><format>\<close> one of
  \<open>png\<close>, \<open>jpeg\<close>, \<open>webp\<close>, but \<open><base>\<close> is the name up to its first dot
  (\<open>split('.')[0]\<close>), not the name without its final extension: for
  \<open>holiday.2024.jpg\<close> converted to WEBP the code gives \<open>converted-holiday.webp\<close>, where
  the claim says \<open>converted-holiday.2024.webp\<close>.
\<close>

theorem download_name_cuts_at_first_dot:
  "download_name photo_source
     \<lparr>url = ''data:image/webp;base64,AAAA'', format = WEBP, res_size = 3\<rparr> =
     ''converted-holiday.webp''
   \<and> download_name photo_source
     \<lparr>url = ''data:image/webp;base64,AAAA'', format = WEBP, res_size = 3\<rparr> \<noteq>
     ''converted-holiday.2024.webp''"
  by (simp add: download_name_eq photo_source_def)

section \<open>Quality\<close>




section \<open>Reset\<close>

text \<open>
  Claim C5, as the claim states it, fails: \<open>reset\<close> leaves the target format and the
  quality as they are, so after the user has picked JPEG the state after a reset is not
  the state at process start, where the format is PNG.
\<close>

theorem reset_not_initial_counterexample:
  "sourceImage (app (reset jpeg_selected)) = None
   \<and> targetFormat (app (reset jpeg_selected)) = JPEG
   \<and> targetFormat init_App = PNG
   \<and> commit (app (reset jpeg_selected)) \<noteq> init_App
   \<and> app (step toy_platform ClickReset jpeg_selected) \<noteq> app init_world"
proof -
  have 1: "sourceImage (app (reset jpeg_selected)) = None"
    by (simp add: reset_def)
  have 2: "targetFormat (app (reset jpeg_selected)) = JPEG"
    by code_simp
  have 3: "targetFormat init_App = PNG"
    by (simp add: init_App_def)
  have 4: "targetFormat (commit (app (reset jpeg_selected))) = JPEG"
    using 2 by (simp add: commit_def)
  have 5: "targetFormat (app (step toy_platform ClickReset jpeg_selected)) = JPEG"
    by code_simp
  have 6: "commit (app (reset jpeg_selected)) \<noteq> init_App"
    using 3 4 by auto
  have 7: "app (step toy_platform ClickReset jpeg_selected) \<noteq> app init_world"
    using 3 5 by (auto simp: init_world_def)
  from 1 2 3 6 7 show ?thesis by blast
qed

text \<open>
  Claim C5, amended. After \<open>reset\<close> there is no \<open>SourceImage\<close>, no
  \<open>ConversionResult\<close>, the in-flight flag is false and the file input holds no file
  (it is empty, or not mounted and then mounted empty by the next render). The target
  format, the quality and the drag flag keep their values, and pending work is not
  cancelled: once rendered, the state is the initial one except for these three slots.
\<close>

theorem reset_clears_session:
  "sourceImage (app (reset w)) = None
   \<and> result (app (reset w)) = None
   \<and> isConverting (app (reset w)) = False
   \<and> (fileInputRef (app (reset w)) = None \<or> fileInputRef (app (reset w)) = Some '''')
   \<and> fileInputRef (commit (app (reset w))) = Some ''''
   \<and> targetFormat (app (reset w)) = targetFormat (app w)
   \<and> quality (app (reset w)) = quality (app w)
   \<and> isDragging (app (reset w)) = isDragging (app w)
   \<and> commit (app (reset w)) =
       init_App\<lparr>targetFormat := targetFormat (app w), quality := quality (app w),
                isDragging := isDragging (app w)\<rparr>
   \<and> readers (reset w) = readers w
   \<and> images (reset w) = images w
   \<and> conversions (reset w) = conversions w
   \<and> effects (reset w) = effects w"
  by (cases "fileInputRef (app w)")
     (simp_all add: reset_def commit_def upload_zone_shown_def init_App_def)

theorem reset_clears_session_witness:
  "sourceImage (app jpeg_selected) = Some photo_source
   \<and> commit (app (reset jpeg_selected)) = init_App\<lparr>targetFormat := JPEG\<rparr>"
proof -
  have 1: "sourceImage (app jpeg_selected) = Some photo_source"
    by code_simp
  have 2: "targetFormat (app jpeg_selected) = JPEG"
    by code_simp
  have 3: "quality (app jpeg_selected) = 9 / 10"
    by code_simp
  have 4: "isDragging (app jpeg_selected) = False"
    by code_simp
  show ?thesis
    using 1 2 3 4 reset_clears_session [of jpeg_selected]
    by (simp add: init_App_def)
qed

section \<open>Failures of a conversion\<close>

text \<open>
  After the image has loaded, every failure (no context, \<open>drawImage\<close> or \<open>toDataURL\<close>
  throwing) is logged and reported by the one notice; the flag is cleared and nothing
  else changes.
\<close>

lemma convert_failure_after_load:
  assumes "convert_body P t img = Inl e"
  shows "convertImage_resume P t img w =
           w\<lparr>app := (app w)\<lparr>isConverting := False\<rparr>,
             effects := effects w @ [ConsoleError e, AlertConversionFailed]\<rparr>"
  using assms by (simp add: convertImage_resume_def)

text \<open>
  A conversion whose image has fired \<open>error\<close> is never resumed: as long as the user does
  not reset, it stays suspended with the flag set, and no failure notice appears.
\<close>

lemma failed_conversion_stays:
  assumes "conversions w = [t]" and "task_failed t" and "isConverting (app w)"
    and "e \<noteq> ClickReset"
  shows "conversions (step P e w) = [t] \<and> isConverting (app (step P e w))
         \<and> filter (\<lambda>x. x = AlertConversionFailed) (effects (step P e w)) =
             filter (\<lambda>x. x = AlertConversionFailed) (effects w)"
  using assms
  by (cases e)
     (auto simp: step_def Let_def commit_def onFileChange_def onDrop_def onDragOver_def
        onDragLeave_def handleFile_def reader_onload_def img_onload_def convert_disabled_def
        split: list.splits)

lemma failed_conversion_stays_run:
  assumes "conversions w = [t]" and "task_failed t" and "isConverting (app w)"
    and "ClickReset \<notin> set es"
  shows "conversions (run P es w) = [t] \<and> isConverting (app (run P es w))
         \<and> filter (\<lambda>x. x = AlertConversionFailed) (effects (run P es w)) =
             filter (\<lambda>x. x = AlertConversionFailed) (effects w)"
  using assms
proof (induction es arbitrary: w)
  case Nil
  then show ?case by simp
next
  case (Cons e es)
  from Cons.prems have e: "e \<noteq> ClickReset" and es: "ClickReset \<notin> set es"
    by auto
  note s = failed_conversion_stays [OF Cons.prems(1-3) e, of P]
  from s have 1: "conversions (step P e w) = [t]" and 2: "isConverting (app (step P e w))"
    by blast+
  from Cons.IH [OF 1 Cons.prems(2) 2 es] s show ?case
    by simp
qed

text \<open>
  Claim C6 fails at the decode stage. The promise of line 78 resolves on \<open>load\<close> and
  has no \<open>onerror\<close>: when the image of a conversion fires \<open>error\<close>, the \<open>await\<close>
  never returns, so \<open>catch\<close> and \<open>finally\<close> never run. No notice is reported and
  the in-flight flag stays set.
\<close>

theorem decode_failure_never_reported:
  "isConverting (app (run toy_platform (load_photo @ [ClickConvert, ConvImageError 0]) init_world))
   \<and> effects (run toy_platform (load_photo @ [ClickConvert, ConvImageError 0]) init_world) = []
   \<and> conversions (run toy_platform (load_photo @ [ClickConvert, ConvImageError 0]) init_world) =
       [photo_task\<lparr>task_failed := True\<rparr>]
   \<and> sourceImage (app (run toy_platform (load_photo @ [ClickConvert, ConvImageError 0])
        init_world)) = Some photo_source"
  by code_simp

section \<open>Conversions in flight\<close>

lemma commit_idem: "commit (commit a) = commit a"
  by (simp add: commit_def upload_zone_shown_def split: option.splits)

lemma app_step_committed: "commit (app (step P e w)) = app (step P e w)"
  by (simp add: step_def Let_def commit_idem)

lemma app_run_committed: "commit (app w) = app w \<Longrightarrow> commit (app (run P es w)) = app (run P es w)"
proof (induction es arbitrary: w)
  case Nil
  then show ?case by simp
next
  case (Cons e es)
  show ?case
    using Cons.IH [OF app_step_committed [of P e w]] by simp
qed

lemma init_committed: "commit (app init_world) = app init_world"
  by (simp add: init_world_def init_App_def commit_def upload_zone_shown_def)

lemma click_convert_while_converting:
  "isConverting (app w) \<Longrightarrow> dispatch P ClickConvert w = w"
  by (simp add: convert_disabled_def)

lemma conversions_step_others:
  assumes "e \<noteq> ClickConvert" and "e \<noteq> ClickReset"
    and "\<forall>k img. e \<noteq> ConvImageLoad k img" and "\<forall>k. e \<noteq> ConvImageError k"
  shows "conversions (step P e w) = conversions w
         \<and> isConverting (app (step P e w)) = isConverting (app w)"
  using assms
  by (cases e)
     (auto simp: step_def Let_def commit_def onFileChange_def onDrop_def onDragOver_def
        onDragLeave_def handleFile_def reader_onload_def img_onload_def split: list.splits)

lemma one_in_flight_step:
  assumes inv: "one_in_flight w" and calm: "e = ClickReset \<longrightarrow> conversions w = []"
  shows "one_in_flight (step P e w)"
proof (cases e)
  case ClickConvert
  show ?thesis
  proof (cases "isConverting (app w)")
    case True
    with inv ClickConvert show ?thesis
      by (simp add: one_in_flight_def step_def Let_def commit_def convert_disabled_def)
  next
    case False
    with inv have "conversions w = []"
      by (auto simp: one_in_flight_def)
    with False ClickConvert show ?thesis
      by (simp add: one_in_flight_def step_def Let_def commit_def convert_disabled_def
            convertImage_def split: option.splits)
  qed
next
  case ClickReset
  with calm inv show ?thesis
    by (simp add: one_in_flight_def step_def Let_def commit_def reset_def)
next
  case (ConvImageLoad k img)
  show ?thesis
  proof (cases "k < length (conversions w) \<and> \<not> task_failed (conversions w ! k)")
    case True
    with inv have "delete_nth k (conversions w) = []"
      by (cases "conversions w") (auto simp: one_in_flight_def delete_nth_def)
    with True ConvImageLoad show ?thesis
      by (simp add: one_in_flight_def step_def Let_def commit_def convertImage_resume_def
            split: sum.splits)
  next
    case False
    with inv ConvImageLoad show ?thesis
      by (auto simp: one_in_flight_def step_def Let_def commit_def)
  qed
next
  case (ConvImageError k)
  with inv show ?thesis
    by (auto simp: one_in_flight_def step_def Let_def commit_def)
qed (use inv conversions_step_others [of e P w] in \<open>simp_all add: one_in_flight_def\<close>)

lemma one_in_flight_run:
  "one_in_flight w \<Longrightarrow> no_reset_in_flight P es w \<Longrightarrow> one_in_flight (run P es w)"
proof (induction es arbitrary: w)
  case Nil
  then show ?case by simp
next
  case (Cons e es)
  from Cons.prems have "one_in_flight (step P e w)"
    by (simp add: one_in_flight_step)
  moreover from Cons.prems have "no_reset_in_flight P es (step P e w)"
    by simp
  ultimately show ?case
    using Cons.IH by simp
qed

text \<open>
  Claim C7, as the claim states it, fails. \<open>reset\<close> clears the in-flight flag and
  cancels nothing: after a reset while a conversion is suspended and a new load, the
  convert control is enabled although that conversion is still in flight, and a click
  on it starts a second one.
\<close>

theorem two_conversions_in_flight_counterexample:
  "conversions (run toy_platform reset_in_flight init_world) = [photo_task]
   \<and> convert_disabled (app (run toy_platform reset_in_flight init_world)) = False
   \<and> conversions (step toy_platform ClickConvert (run toy_platform reset_in_flight init_world)) =
       [photo_task, photo_task]
   \<and> step toy_platform ClickConvert (run toy_platform reset_in_flight init_world) \<noteq>
       run toy_platform reset_in_flight init_world"
proof -
  have 1: "conversions (run toy_platform reset_in_flight init_world) = [photo_task]"
    by code_simp
  have 2: "convert_disabled (app (run toy_platform reset_in_flight init_world)) = False"
    by code_simp
  have 3: "conversions (step toy_platform ClickConvert
             (run toy_platform reset_in_flight init_world)) = [photo_task, photo_task]"
    by code_simp
  have 4: "step toy_platform ClickConvert (run toy_platform reset_in_flight init_world) \<noteq>
       run toy_platform reset_in_flight init_world"
    using 1 3 by auto
  from 1 2 3 4 show ?thesis by blast
qed

text \<open>
  Claim C7, amended. While the in-flight flag is set the convert control is disabled and
  a click on it is a no-op. From process start, as long as the user does not reset while
  a conversion is suspended, at most one conversion is in flight, and the flag is set
  while there is one.
\<close>

theorem one_conversion_while_flag_set:
  "(isConverting (app w) \<longrightarrow> convert_disabled (app w) \<and> dispatch P ClickConvert w = w)
   \<and> (isConverting (app (run P es init_world)) \<longrightarrow>
        run P (es @ [ClickConvert]) init_world = run P es init_world)
   \<and> (no_reset_in_flight P es init_world \<longrightarrow>
        length (conversions (run P es init_world)) \<le> 1
        \<and> (conversions (run P es init_world) \<noteq> [] \<longrightarrow> isConverting (app (run P es init_world))))"
proof -
  have a: "isConverting (app w) \<longrightarrow> convert_disabled (app w) \<and> dispatch P ClickConvert w = w"
    by (simp add: convert_disabled_def)
  have run_snoc: "run P (xs @ [x]) v = step P x (run P xs v)" for xs x v
    by (induction xs arbitrary: v) simp_all
  have b: "isConverting (app (run P es init_world)) \<longrightarrow>
        run P (es @ [ClickConvert]) init_world = run P es init_world"
  proof
    assume c: "isConverting (app (run P es init_world))"
    let ?w = "run P es init_world"
    have "step P ClickConvert ?w = ?w\<lparr>app := commit (app ?w)\<rparr>"
      using c by (simp add: step_def Let_def convert_disabled_def)
    also have "\<dots> = ?w"
      using app_run_committed [OF init_committed, of P es] by simp
    finally show "run P (es @ [ClickConvert]) init_world = ?w"
      by (simp add: run_snoc)
  qed
  have i: "one_in_flight init_world"
    by (simp add: one_in_flight_def init_world_def)
  have c: "no_reset_in_flight P es init_world \<longrightarrow>
        length (conversions (run P es init_world)) \<le> 1
        \<and> (conversions (run P es init_world) \<noteq> [] \<longrightarrow> isConverting (app (run P es init_world)))"
    using one_in_flight_run [OF i, of P es] by (simp add: one_in_flight_def)
  from a b c show ?thesis by blast
qed

theorem one_conversion_while_flag_set_witness:
  "isConverting (app (run toy_platform (load_photo @ [ClickConvert]) init_world))
   \<and> no_reset_in_flight toy_platform (load_photo @ [ClickConvert]) init_world
   \<and> conversions (run toy_platform (load_photo @ [ClickConvert]) init_world) = [photo_task]
   \<and> run toy_platform ((load_photo @ [ClickConvert]) @ [ClickConvert]) init_world =
       run toy_platform (load_photo @ [ClickConvert]) init_world
   \<and> length (conversions (run toy_platform ((load_photo @ [ClickConvert]) @ [ClickConvert])
        init_world)) \<le> 1"
proof -
  let ?es = "load_photo @ [ClickConvert]"
  have 1: "isConverting (app (run toy_platform ?es init_world))"
    by code_simp
  have 2: "no_reset_in_flight toy_platform ?es init_world"
    by code_simp
  have 3: "conversions (run toy_platform ?es init_world) = [photo_task]"
    by code_simp
  have 4: "run toy_platform (?es @ [ClickConvert]) init_world = run toy_platform ?es init_world"
    using 1 one_conversion_while_flag_set [of "run toy_platform ?es init_world" toy_platform ?es]
    by blast
  have 5: "length (conversions (run toy_platform (?es @ [ClickConvert]) init_world)) \<le> 1"
    using 3 4 by simp
  from 1 2 3 4 5 show ?thesis by blast
qed

end
